theory Spec2Isabelle
  imports Main "HOL-Library.Sublist"
begin

section \<open>JavaScript string helpers used by the browse service\<close>

text \<open>
  \<^verbatim>\<open>String.prototype.split(sep)\<close> for a one-character separator: the result always has
  at least one part, and the empty string gives one empty part.
\<close>

fun js_split :: "char \<Rightarrow> string \<Rightarrow> string list" where
  "js_split sep [] = [[]]"
| "js_split sep (c # cs) =
     (if c = sep then [] # js_split sep cs
      else (case js_split sep cs of
              [] \<Rightarrow> [[c]]
            | p # ps \<Rightarrow> (c # p) # ps))"

text \<open>\<^verbatim>\<open>Array.prototype.join(sep)\<close> on an array of strings.\<close>

fun js_join :: "string \<Rightarrow> string list \<Rightarrow> string" where
  "js_join sep [] = []"
| "js_join sep [x] = x"
| "js_join sep (x # y # ys) = x @ sep @ js_join sep (y # ys)"

section \<open>BrowseService.toSearchKeyArray\<close>

text \<open>
  The \<^verbatim>\<open>for (let i = 0; i < keyParts.length - 1; i++)\<close> loop of toSearchKeyArray:
  \<open>i\<close> is the loop counter and \<open>searchFor\<close> the array being pushed to. The bound
  \<^verbatim>\<open>keyParts.length - 1\<close> is computed over the integers, as in the source.
\<close>

function toSearchKeyArray_loop :: "string list \<Rightarrow> nat \<Rightarrow> string list \<Rightarrow> string list" where
  "toSearchKeyArray_loop keyParts i searchFor =
     (if int i < int (length keyParts) - 1
      then toSearchKeyArray_loop keyParts (i + 1)
             (searchFor @ [js_join ''.'' (take (i + 1) keyParts @ [''*''])])
      else searchFor)"
  by pat_completeness auto
termination
  by (relation "measure (\<lambda>(keyParts, i, searchFor). length keyParts - i)") auto

declare toSearchKeyArray_loop.simps [simp del]

definition toSearchKeyArray :: "string \<Rightarrow> string list" where
  "toSearchKeyArray metadatumKey =
     toSearchKeyArray_loop (js_split CHR ''.'' metadatumKey) 0 [''*''] @ [metadatumKey]"

section \<open>Values that may be absent, and the emptiness tests\<close>

text \<open>
  An optional parameter or field of the TypeScript code is an \<open>option\<close>: \<open>None\<close> is
  \<^verbatim>\<open>undefined\<close>. A template literal renders \<^verbatim>\<open>undefined\<close> as the text "undefined".
\<close>

definition js_string_of :: "string option \<Rightarrow> string" where
  "js_string_of x = (case x of None \<Rightarrow> ''undefined'' | Some s \<Rightarrow> s)"

text \<open>
  Modelled from the spec: \<^verbatim>\<open>isEmpty\<close>, \<^verbatim>\<open>isNotEmpty\<close> and \<^verbatim>\<open>hasValue\<close> of
  \<^verbatim>\<open>shared/empty.util\<close>, which is not among the sources. The spec speaks of options
  that are "non-empty": a string is empty when it is absent or has length zero, an object
  (sort options, pagination options, a definition, a link table) is empty when it is
  absent, an array is empty when it has no element; \<^verbatim>\<open>hasValue\<close> only asks that the
  value is there.
\<close>

definition hasValue :: "'a option \<Rightarrow> bool" where
  "hasValue x = (x \<noteq> None)"

definition isEmpty_string :: "string option \<Rightarrow> bool" where
  "isEmpty_string x = (case x of None \<Rightarrow> True | Some s \<Rightarrow> s = [])"

definition isEmpty_object :: "'a option \<Rightarrow> bool" where
  "isEmpty_object x = (x = None)"

definition isEmpty_array :: "'a list \<Rightarrow> bool" where
  "isEmpty_array xs = (xs = [])"

definition isNotEmpty_string :: "string option \<Rightarrow> bool" where
  "isNotEmpty_string x = (\<not> isEmpty_string x)"

definition isNotEmpty_object :: "'a option \<Rightarrow> bool" where
  "isNotEmpty_object x = (\<not> isEmpty_object x)"

definition isNotEmpty_array :: "'a list \<Rightarrow> bool" where
  "isNotEmpty_array xs = (\<not> isEmpty_array xs)"

text \<open>
  Reading a property of a plain object, \<^verbatim>\<open>obj[key]\<close>: the object's own entry under
  the key, else the member that every plain object inherits from \<^verbatim>\<open>Object.prototype\<close>
  under that name, else \<^verbatim>\<open>undefined\<close>. The own entries of a link table are strings;
  an inherited member is a function (for \<^verbatim>\<open>__proto__\<close> the prototype object) and is
  kept by its name.
\<close>

datatype js_value = JsString string | JsInherited string

definition objectPrototypeMembers :: "string list" where
  "objectPrototypeMembers =
     [''constructor'', ''hasOwnProperty'', ''isPrototypeOf'', ''propertyIsEnumerable'',
      ''toLocaleString'', ''toString'', ''valueOf'', ''__proto__'',
      ''__defineGetter__'', ''__defineSetter__'', ''__lookupGetter__'', ''__lookupSetter__'']"

definition js_property :: "(string \<rightharpoonup> string) \<Rightarrow> string \<Rightarrow> js_value option" where
  "js_property obj key =
     (case obj key of
        Some s \<Rightarrow> Some (JsString s)
      | None \<Rightarrow> if key \<in> set objectPrototypeMembers then Some (JsInherited key) else None)"

text \<open>
  Modelled from the spec: \<^verbatim>\<open>isEmpty\<close> of \<^verbatim>\<open>shared/empty.util\<close> (not among the
  sources) on what such a read gives. Nothing and the empty string are empty; an
  inherited function or object is a value that is there.
\<close>

definition isEmpty_value :: "js_value option \<Rightarrow> bool" where
  "isEmpty_value x =
     (case x of None \<Rightarrow> True | Some (JsString s) \<Rightarrow> s = [] | Some (JsInherited m) \<Rightarrow> False)"

text \<open>
  Decimal rendering of a number inside a template literal (page numbers are integers, of
  a size that JavaScript prints in full).
\<close>

function showNat :: "nat \<Rightarrow> string" where
  "showNat n =
     (if n < 10 then [''0123456789'' ! n]
      else showNat (n div 10) @ [''0123456789'' ! (n mod 10)])"
  by pat_completeness auto
termination
  by (relation "measure id") auto

declare showNat.simps [simp del]

definition showInt :: "int \<Rightarrow> string" where
  "showInt i = (if i < 0 then CHR ''-'' # showNat (nat (- i)) else showNat (nat i))"

text \<open>\<^verbatim>\<open>Array.prototype.indexOf\<close>: the first index of the element, or -1.\<close>

fun js_indexOf :: "'a list \<Rightarrow> 'a \<Rightarrow> int" where
  "js_indexOf [] x = - 1"
| "js_indexOf (y # ys) x =
     (if y = x then 0
      else (let r = js_indexOf ys x in if r < 0 then - 1 else r + 1))"

section \<open>The data model of the browse service\<close>

text \<open>
  The classes are declared outside the sources; each record has the fields that
  \<^verbatim>\<open>browse.service.ts\<close> reads, optional ones as \<open>option\<close>.
\<close>

record SortOptions =
  field :: string
  direction :: string

record PaginationComponentOptions =
  currentPage :: int
  pageSize :: int

text \<open>
  BrowseEntrySearchOptions. The field \<^verbatim>\<open>sort\<close> is called \<open>sort_opt\<close> here, since
  \<open>sort\<close> is a list function of HOL.
\<close>

record BrowseEntrySearchOptions =
  metadataDefinition :: string
  pagination :: "PaginationComponentOptions option"
  sort_opt :: "SortOptions option"
  startsWith :: "string option"
  scope :: "string option"

text \<open>
  A browse definition: its metadata keys and its link table \<^verbatim>\<open>_links\<close> (called
  \<open>links\<close> here), a dictionary from link names to URLs that may itself be absent.
\<close>

record BrowseDefinition =
  metadataKeys :: "string list"
  links :: "(string \<rightharpoonup> string) option"

text \<open>
  A paginated list carries the links to the adjacent pages, either of which may be
  absent, and the page itself. Of RemoteData the service reads the payload only; it is
  absent while the data is not there.
\<close>

record 'a PaginatedList =
  prev :: "string option"
  "next" :: "string option"
  page :: "'a list"

record 'a RemoteData =
  payload :: "'a option"

datatype RequestKind = BrowseEndpointRequest | BrowseEntriesRequest | BrowseItemsRequest

record RestRequest =
  uuid :: string
  href :: "string option"
  kind :: RequestKind

text \<open>
  What can be thrown: the \<^verbatim>\<open>Error\<close> that getBrowseURLFor raises with its message, and
  the TypeError of JavaScript on reading a property of \<^verbatim>\<open>undefined\<close>.
\<close>

datatype js_error = Error string | TypeError

text \<open>
  An observable, as the finite sequence of what it has delivered to a subscriber: values,
  and at most one error, after which nothing follows.
\<close>

datatype 'a notification = Next 'a | Thrown js_error

section \<open>The reactive operators the service pipes through\<close>

text \<open>
  \<^verbatim>\<open>map\<close> of rxjs with a projection that may throw: the error is delivered in the stream
  and ends it. An error of the source ends the stream in the same way.
\<close>

fun rx_map :: "('a \<Rightarrow> js_error + 'b) \<Rightarrow> 'a notification list \<Rightarrow> 'b notification list" where
  "rx_map f [] = []"
| "rx_map f (Thrown e # rest) = [Thrown e]"
| "rx_map f (Next x # rest) =
     (case f x of Inl e \<Rightarrow> [Thrown e] | Inr y \<Rightarrow> Next y # rx_map f rest)"

text \<open>\<^verbatim>\<open>startWith(v)\<close> delivers \<open>v\<close> before anything of the source.\<close>

definition startWith :: "'a \<Rightarrow> 'a notification list \<Rightarrow> 'a notification list" where
  "startWith v source = Next v # source"

text \<open>
  \<^verbatim>\<open>distinctUntilChanged()\<close> drops a value equal to the one delivered last; \<open>latest\<close>
  is that value, \<open>None\<close> before the first one.
\<close>

fun distinctUntilChanged_from :: "'a option \<Rightarrow> 'a notification list \<Rightarrow> 'a notification list" where
  "distinctUntilChanged_from latest [] = []"
| "distinctUntilChanged_from latest (Thrown e # rest) = [Thrown e]"
| "distinctUntilChanged_from latest (Next x # rest) =
     (if latest = Some x then distinctUntilChanged_from latest rest
      else Next x # distinctUntilChanged_from (Some x) rest)"

definition distinctUntilChanged :: "'a notification list \<Rightarrow> 'a notification list" where
  "distinctUntilChanged source = distinctUntilChanged_from None source"

section \<open>BrowseService: building the request URLs\<close>

text \<open>
  The projection inside getBrowseEntriesFor that turns the \<^verbatim>\<open>entries\<close> link into the
  request URL. \<open>args\<close> is the array the source pushes to, one \<open>let\<close> per \<^verbatim>\<open>if\<close>
  of the source, in its order and with its conditions: the first \<^verbatim>\<open>if\<close>, which pushes
  the scope, tests \<^verbatim>\<open>isNotEmpty(options.sort)\<close> as the second does. Where the body of
  an \<^verbatim>\<open>if\<close> reads the fields of the object it has tested (the sort options, the
  pagination), test and reads are one \<open>case\<close>: an object is non-empty when it is there.
  URLCombiner is not among the sources: \<open>combine\<close> stands for
  \<^verbatim>\<open>new URLCombiner(...).toString()\<close> on its parts.
\<close>

definition getBrowseEntriesFor_args :: "BrowseEntrySearchOptions \<Rightarrow> string list" where
  "getBrowseEntriesFor_args options =
     (let args = [];
          args = (if isNotEmpty_object (sort_opt options)
                  then args @ [''scope='' @ js_string_of (scope options)] else args);
          args = (case sort_opt options of
                    None \<Rightarrow> args
                  | Some s \<Rightarrow> args @ [''sort='' @ field s @ '','' @ direction s]);
          args = (case pagination options of
                    None \<Rightarrow> args
                  | Some p \<Rightarrow> args @ [''page='' @ showInt (currentPage p - 1)]
                                   @ [''size='' @ showInt (pageSize p)]);
          args = (if isNotEmpty_string (startsWith options)
                  then args @ [''startsWith='' @ js_string_of (startsWith options)] else args)
      in args)"

definition getBrowseEntriesFor_href ::
    "(string list \<Rightarrow> string) \<Rightarrow> BrowseEntrySearchOptions \<Rightarrow> string \<Rightarrow> string" where
  "getBrowseEntriesFor_href combine options h =
     (let args = getBrowseEntriesFor_args options
      in if isNotEmpty_array args then combine [h, ''?'' @ js_join ''&'' args] else h)"

text \<open>The same projection inside getBrowseItemsFor, on the \<^verbatim>\<open>items\<close> link.\<close>

definition getBrowseItemsFor_args :: "string option \<Rightarrow> BrowseEntrySearchOptions \<Rightarrow> string list" where
  "getBrowseItemsFor_args filterValue options =
     (let args = [];
          args = (if isNotEmpty_object (sort_opt options)
                  then args @ [''scope='' @ js_string_of (scope options)] else args);
          args = (case sort_opt options of
                    None \<Rightarrow> args
                  | Some s \<Rightarrow> args @ [''sort='' @ field s @ '','' @ direction s]);
          args = (case pagination options of
                    None \<Rightarrow> args
                  | Some p \<Rightarrow> args @ [''page='' @ showInt (currentPage p - 1)]
                                   @ [''size='' @ showInt (pageSize p)]);
          args = (if isNotEmpty_string (startsWith options)
                  then args @ [''startsWith='' @ js_string_of (startsWith options)] else args);
          args = (if isNotEmpty_string filterValue
                  then args @ [''filterValue='' @ js_string_of filterValue] else args)
      in args)"

definition getBrowseItemsFor_href ::
    "(string list \<Rightarrow> string) \<Rightarrow> string option \<Rightarrow> BrowseEntrySearchOptions \<Rightarrow> string \<Rightarrow> string" where
  "getBrowseItemsFor_href combine filterValue options h =
     (let args = getBrowseItemsFor_args filterValue options
      in if isNotEmpty_array args then combine [h, ''?'' @ js_join ''&'' args] else h)"

text \<open>The projection inside getFirstItemFor.\<close>

definition getFirstItemFor_args :: "string option \<Rightarrow> string list" where
  "getFirstItemFor_args scope_arg =
     (let args = [];
          args = (if hasValue scope_arg then args @ [''scope='' @ js_string_of scope_arg] else args);
          args = args @ [''page=0''];
          args = args @ [''size=1'']
      in args)"

definition getFirstItemFor_href :: "(string list \<Rightarrow> string) \<Rightarrow> string option \<Rightarrow> string \<Rightarrow> string" where
  "getFirstItemFor_href combine scope_arg h =
     (let args = getFirstItemFor_args scope_arg
      in if isNotEmpty_array args then combine [h, ''?'' @ js_join ''&'' args] else h)"

section \<open>BrowseService: issuing the requests\<close>

text \<open>
  The operator getBrowseItemsFor on one URL: it creates a BrowseItemsRequest with a fresh
  request id, configures it on the request service, and yields the remote data of that
  URL. The request service and the response cache are not among the sources:
  \<open>configured\<close> is the list of requests configured so far (the state the operator
  changes), \<open>generateRequestId\<close> the id generator, and \<open>respond\<close> what the request
  and cache layer holds for a URL.
\<close>

definition getBrowseItemsFor_op ::
    "(RestRequest list \<Rightarrow> string) \<Rightarrow> (string option \<Rightarrow> 'a PaginatedList RemoteData) \<Rightarrow>
     RestRequest list \<Rightarrow> string option \<Rightarrow> RestRequest list \<times> 'a PaginatedList RemoteData" where
  "getBrowseItemsFor_op generateRequestId respond configured h =
     (let request = \<lparr>uuid = generateRequestId configured, href = h, kind = BrowseItemsRequest\<rparr>
      in (configured @ [request], respond (href request)))"

text \<open>
  Modelled from the spec: the operator \<^verbatim>\<open>getFirstOccurrence\<close> of \<^verbatim>\<open>shared/operators\<close>,
  which is not among the sources. The spec: getFirstItemFor "takes the first element of
  the resulting page". With no payload or an empty page there is no first element.
\<close>

definition getFirstOccurrence :: "'a PaginatedList RemoteData \<Rightarrow> 'a RemoteData" where
  "getFirstOccurrence rd =
     \<lparr>payload = (case payload rd of
                   None \<Rightarrow> None
                 | Some list \<Rightarrow> (case page list of [] \<Rightarrow> None | x # xs \<Rightarrow> Some x))\<rparr>"

text \<open>getFirstItemFor on the \<^verbatim>\<open>items\<close> link \<open>h\<close> of the chosen definition.\<close>

definition getFirstItemFor ::
    "(string list \<Rightarrow> string) \<Rightarrow> (RestRequest list \<Rightarrow> string) \<Rightarrow>
     (string option \<Rightarrow> 'a PaginatedList RemoteData) \<Rightarrow>
     RestRequest list \<Rightarrow> string option \<Rightarrow> string \<Rightarrow> RestRequest list \<times> 'a RemoteData" where
  "getFirstItemFor combine generateRequestId respond configured scope_arg h =
     (let (configured', rd) =
            getBrowseItemsFor_op generateRequestId respond configured
              (Some (getFirstItemFor_href combine scope_arg h))
      in (configured', getFirstOccurrence rd))"

text \<open>
  getPrevBrowseItems and getNextBrowseItems read \<^verbatim>\<open>items.payload.prev\<close> and
  \<^verbatim>\<open>items.payload.next\<close>: with no payload the read throws a TypeError before any
  request is made; otherwise the link, absent or not, goes to the operator.
\<close>

definition getPrevBrowseItems ::
    "(RestRequest list \<Rightarrow> string) \<Rightarrow> (string option \<Rightarrow> 'a PaginatedList RemoteData) \<Rightarrow>
     RestRequest list \<Rightarrow> 'a PaginatedList RemoteData \<Rightarrow>
     js_error + RestRequest list \<times> 'a PaginatedList RemoteData" where
  "getPrevBrowseItems generateRequestId respond configured items =
     (case payload items of
        None \<Rightarrow> Inl TypeError
      | Some list \<Rightarrow> Inr (getBrowseItemsFor_op generateRequestId respond configured (prev list)))"

definition getNextBrowseItems ::
    "(RestRequest list \<Rightarrow> string) \<Rightarrow> (string option \<Rightarrow> 'a PaginatedList RemoteData) \<Rightarrow>
     RestRequest list \<Rightarrow> 'a PaginatedList RemoteData \<Rightarrow>
     js_error + RestRequest list \<times> 'a PaginatedList RemoteData" where
  "getNextBrowseItems generateRequestId respond configured items =
     (case payload items of
        None \<Rightarrow> Inl TypeError
      | Some list \<Rightarrow> Inr (getBrowseItemsFor_op generateRequestId respond configured (next list)))"

section \<open>BrowseService.getBrowseURLFor\<close>

text \<open>
  The first projection: \<^verbatim>\<open>browseDefinitions.find(...)\<close> with the inner
  \<^verbatim>\<open>def.metadataKeys.find((key) => searchKeyArray.indexOf(key) >= 0)\<close> and the test
  \<^verbatim>\<open>isNotEmpty(matchingKeys)\<close> on the key found (a string, or nothing).
\<close>

definition findDefinition :: "string list \<Rightarrow> BrowseDefinition list \<Rightarrow> BrowseDefinition option" where
  "findDefinition searchKeyArray browseDefinitions =
     find (\<lambda>def.
             let matchingKeys = find (\<lambda>key. js_indexOf searchKeyArray key \<ge> 0) (metadataKeys def)
             in isNotEmpty_string matchingKeys)
          browseDefinitions"

definition notConfigured :: "string \<Rightarrow> string \<Rightarrow> js_error" where
  "notConfigured linkPath metadatumKey =
     Error (''A browse endpoint for '' @ linkPath @ '' on '' @ metadatumKey @ '' isn't configured'')"

text \<open>
  The second projection: the three emptiness tests of the source, in its order, and
  otherwise what \<^verbatim>\<open>def._links[linkPath]\<close> reads. The link table is a plain object, so
  the read also finds the members inherited from \<^verbatim>\<open>Object.prototype\<close>.
\<close>

definition linkOrThrow :: "string \<Rightarrow> string \<Rightarrow> BrowseDefinition option \<Rightarrow> js_error + js_value" where
  "linkOrThrow metadatumKey linkPath def =
     (case def of
        None \<Rightarrow> Inl (notConfigured linkPath metadatumKey)
      | Some d \<Rightarrow>
          (case links d of
             None \<Rightarrow> Inl (notConfigured linkPath metadatumKey)
           | Some l \<Rightarrow>
               (if isEmpty_value (js_property l linkPath)
                then Inl (notConfigured linkPath metadatumKey)
                else (case js_property l linkPath of
                        None \<Rightarrow> Inl (notConfigured linkPath metadatumKey)
                      | Some v \<Rightarrow> Inr v))))"

text \<open>Both projections on one list of definitions.\<close>

definition getBrowseURLFor_emit :: "string \<Rightarrow> string \<Rightarrow> BrowseDefinition list \<Rightarrow> js_error + js_value" where
  "getBrowseURLFor_emit metadatumKey linkPath browseDefinitions =
     linkOrThrow metadatumKey linkPath
       (findDefinition (toSearchKeyArray metadatumKey) browseDefinitions)"

text \<open>
  getBrowseURLFor on the stream of definition lists (the payloads of
  getBrowseDefinitions): what the returned observable delivers. The values are what the
  link table holds under linkPath, or \<open>None\<close> for the \<^verbatim>\<open>undefined\<close> it starts with.
\<close>

definition getBrowseURLFor ::
    "string \<Rightarrow> string \<Rightarrow> BrowseDefinition list notification list \<Rightarrow> js_value option notification list" where
  "getBrowseURLFor metadatumKey linkPath definitions =
     (let searchKeyArray = toSearchKeyArray metadatumKey
      in distinctUntilChanged
           (startWith None
              (rx_map (\<lambda>def. map_sum id Some (linkOrThrow metadatumKey linkPath def))
                 (rx_map (\<lambda>browseDefinitions. Inr (findDefinition searchKeyArray browseDefinitions))
                    definitions))))"

section \<open>The browse-by-taxonomy page component\<close>

text \<open>
  A vocabulary entry detail, in the spec "a label/value pair representing one taxonomy
  node"; the component's test sets the field \<^verbatim>\<open>value\<close>, called \<open>detail_value\<close>
  here. The page component holds the two lists of the spec's data model and starts with
  both empty.
\<close>

record VocabularyEntryDetail =
  detail_label :: string
  detail_value :: string

record BrowseByTaxonomyPage =
  selectedItems :: "VocabularyEntryDetail list"
  filterValues :: "string list"

definition initialPage :: BrowseByTaxonomyPage where
  "initialPage = \<lparr>selectedItems = [], filterValues = []\<rparr>"

text \<open>The filter string of an entry, as the component's test reads it.\<close>

definition filterString :: "VocabularyEntryDetail \<Rightarrow> string" where
  "filterString detail = detail_value detail @ '',equals''"

text \<open>
  Modelled from the spec: \<^verbatim>\<open>onSelect\<close> and \<^verbatim>\<open>onDeselect\<close> of
  BrowseByTaxonomyPageComponent, whose source file is not among the sources (its test
  is). The spec: onSelect "appends detail to selectedItems and appends its derived filter
  string to filterValues"; onDeselect "removes detail from selectedItems and removes the
  matching filter string, preserving relative order of remaining entries", where
  filterValues is the "parallel ordered list of filter strings" that mirrors
  selectedItems. So the detail leaves selectedItems at its position (the first one where
  it stands), and the filter string at the same position, the one that mirrors it, leaves
  filterValues; a detail that is not selected changes nothing.
\<close>

definition onSelect :: "VocabularyEntryDetail \<Rightarrow> BrowseByTaxonomyPage \<Rightarrow> BrowseByTaxonomyPage" where
  "onSelect detail c =
     c\<lparr>selectedItems := selectedItems c @ [detail],
       filterValues := filterValues c @ [filterString detail]\<rparr>"

definition removeAt :: "nat \<Rightarrow> 'a list \<Rightarrow> 'a list" where
  "removeAt i xs = take i xs @ drop (Suc i) xs"

definition onDeselect :: "VocabularyEntryDetail \<Rightarrow> BrowseByTaxonomyPage \<Rightarrow> BrowseByTaxonomyPage" where
  "onDeselect detail c =
     (let i = js_indexOf (selectedItems c) detail
      in if i < 0 then c
         else c\<lparr>selectedItems := removeAt (nat i) (selectedItems c),
                filterValues := removeAt (nat i) (filterValues c)\<rparr>)"

text \<open>A sequence of calls on the component, run from a given state.\<close>

datatype PageEvent = Select VocabularyEntryDetail | Deselect VocabularyEntryDetail

fun eventDetail :: "PageEvent \<Rightarrow> VocabularyEntryDetail" where
  "eventDetail (Select d) = d"
| "eventDetail (Deselect d) = d"

fun handleEvent :: "BrowseByTaxonomyPage \<Rightarrow> PageEvent \<Rightarrow> BrowseByTaxonomyPage" where
  "handleEvent c (Select d) = onSelect d c"
| "handleEvent c (Deselect d) = onDeselect d c"

definition runEvents :: "PageEvent list \<Rightarrow> BrowseByTaxonomyPage \<Rightarrow> BrowseByTaxonomyPage" where
  "runEvents events c = foldl handleEvent c events"

text \<open>
  The invariant of the spec: the i-th filter string is the filter string of the i-th
  selected item, and the two lists are equally long.
\<close>

definition mirrored :: "BrowseByTaxonomyPage \<Rightarrow> bool" where
  "mirrored c = (filterValues c = map filterString (selectedItems c))"

section \<open>Properties of the helpers\<close>

subsection \<open>toSearchKeyArray: the loop in closed form\<close>

lemma js_split_not_Nil: "js_split sep s \<noteq> []"
  by (induction s) (auto split: list.splits)

lemma js_join_snoc: "xs \<noteq> [] \<Longrightarrow> js_join sep (xs @ [y]) = js_join sep xs @ sep @ y"
  by (induction sep xs rule: js_join.induct) auto

lemma toSearchKeyArray_loop_closed:
  "toSearchKeyArray_loop keyParts i searchFor =
     searchFor @ map (\<lambda>j. js_join ''.'' (take (Suc j) keyParts @ [''*'']))
                     [i ..< length keyParts - 1]"
proof (induction keyParts i searchFor rule: toSearchKeyArray_loop.induct)
  case (1 keyParts i searchFor)
  show ?case
  proof (cases "int i < int (length keyParts) - 1")
    case True
    then have lt: "i < length keyParts - 1" by linarith
    have "toSearchKeyArray_loop keyParts i searchFor =
            toSearchKeyArray_loop keyParts (i + 1)
              (searchFor @ [js_join ''.'' (take (i + 1) keyParts @ [''*''])])"
      using True by (subst toSearchKeyArray_loop.simps) simp
    also have "\<dots> = (searchFor @ [js_join ''.'' (take (i + 1) keyParts @ [''*''])]) @
                      map (\<lambda>j. js_join ''.'' (take (Suc j) keyParts @ [''*'']))
                        [i + 1 ..< length keyParts - 1]"
      using "1.IH" [OF True] .
    also have "\<dots> = searchFor @ map (\<lambda>j. js_join ''.'' (take (Suc j) keyParts @ [''*'']))
                                     [i ..< length keyParts - 1]"
      using lt by (simp add: upt_conv_Cons)
    finally show ?thesis .
  next
    case False
    then have "\<not> i < length keyParts - 1" by linarith
    then show ?thesis
      using False by (subst toSearchKeyArray_loop.simps) simp
  qed
qed

lemma toSearchKeyArray_closed:
  "toSearchKeyArray k =
     ''*'' # map (\<lambda>j. js_join ''.'' (take (Suc j) (js_split CHR ''.'' k)) @ ''.*'')
                [0 ..< length (js_split CHR ''.'' k) - 1] @ [k]"
proof -
  have "js_join ''.'' (take (Suc j) (js_split CHR ''.'' k) @ [''*'']) =
        js_join ''.'' (take (Suc j) (js_split CHR ''.'' k)) @ ''.*''" for j
    using js_split_not_Nil [of "CHR ''.''" k]
    by (subst js_join_snoc) (auto simp: take_Suc split: list.splits)
  then show ?thesis
    by (simp add: toSearchKeyArray_def toSearchKeyArray_loop_closed)
qed

subsection \<open>getBrowseURLFor: which definition is found\<close>

lemma js_indexOf_nonneg: "(js_indexOf xs x \<ge> 0) = (x \<in> set xs)"
  by (induction xs) (auto simp: Let_def)

lemma empty_notin_toSearchKeyArray:
  assumes "k \<noteq> []"
  shows "[] \<notin> set (toSearchKeyArray k)"
  using assms by (subst toSearchKeyArray_closed) auto

lemma matchingKeys_iff:
  assumes "[] \<notin> set ks"
  shows "isNotEmpty_string (find (\<lambda>key. js_indexOf ks key \<ge> 0) keys) = (set keys \<inter> set ks \<noteq> {})"
proof (cases "find (\<lambda>key. js_indexOf ks key \<ge> 0) keys")
  case None
  then have "set keys \<inter> set ks = {}"
    by (auto simp: find_None_iff js_indexOf_nonneg)
  with None show ?thesis
    by (simp add: isNotEmpty_string_def isEmpty_string_def)
next
  case (Some key)
  then have "key \<in> set keys" "key \<in> set ks"
    by (auto simp: find_Some_iff js_indexOf_nonneg)
  with assms Some show ?thesis
    by (auto simp: isNotEmpty_string_def isEmpty_string_def)
qed

lemma findDefinition_intersects:
  assumes "[] \<notin> set ks"
  shows "findDefinition ks defs = find (\<lambda>d. set (metadataKeys d) \<inter> set ks \<noteq> {}) defs"
  unfolding findDefinition_def Let_def
  by (rule find_cong) (simp_all add: matchingKeys_iff [OF assms])

subsection \<open>getBrowseURLFor: the stream after the first list of definitions\<close>

lemma rx_map_rx_map_emit:
  "rx_map (\<lambda>def. map_sum id Some (linkOrThrow k lp def))
     (rx_map (\<lambda>defs. Inr (findDefinition (toSearchKeyArray k) defs)) (Next defs # later)) =
   (case getBrowseURLFor_emit k lp defs of
      Inl e \<Rightarrow> [Thrown e]
    | Inr h \<Rightarrow> Next (Some h) #
        rx_map (\<lambda>def. map_sum id Some (linkOrThrow k lp def))
          (rx_map (\<lambda>defs. Inr (findDefinition (toSearchKeyArray k) defs)) later))"
  by (simp add: getBrowseURLFor_emit_def split: sum.splits)

lemma getBrowseURLFor_head:
  "getBrowseURLFor k lp source =
     Next None # distinctUntilChanged_from (Some None)
       (rx_map (\<lambda>def. map_sum id Some (linkOrThrow k lp def))
          (rx_map (\<lambda>defs. Inr (findDefinition (toSearchKeyArray k) defs)) source))"
  by (simp add: getBrowseURLFor_def distinctUntilChanged_def startWith_def)

lemma getBrowseURLFor_first_emission:
  "getBrowseURLFor k lp (Next defs # later) =
     (case getBrowseURLFor_emit k lp defs of
        Inl e \<Rightarrow> [Next None, Thrown e]
      | Inr h \<Rightarrow> Next None # Next (Some h) # distinctUntilChanged_from (Some (Some h))
          (rx_map (\<lambda>def. map_sum id Some (linkOrThrow k lp def))
             (rx_map (\<lambda>defs. Inr (findDefinition (toSearchKeyArray k) defs)) later)))"
  unfolding getBrowseURLFor_head rx_map_rx_map_emit
  by (simp split: sum.splits)

subsection \<open>The taxonomy page: the mirror invariant, step by step\<close>

lemma onSelect_mirrored: "mirrored c \<Longrightarrow> mirrored (onSelect d c)"
  by (simp add: mirrored_def onSelect_def)

lemma removeAt_map: "removeAt i (map f xs) = map f (removeAt i xs)"
  by (simp add: removeAt_def take_map drop_map)

lemma onDeselect_mirrored: "mirrored c \<Longrightarrow> mirrored (onDeselect d c)"
  by (simp add: mirrored_def onDeselect_def Let_def removeAt_map)

lemma runEvents_mirrored: "mirrored c \<Longrightarrow> mirrored (runEvents events c)"
proof (induction events arbitrary: c)
  case Nil
  then show ?case by (simp add: runEvents_def)
next
  case (Cons ev events)
  have "mirrored (handleEvent c ev)"
    using Cons.prems by (cases ev) (simp_all add: onSelect_mirrored onDeselect_mirrored)
  then have "mirrored (runEvents events (handleEvent c ev))"
    by (rule Cons.IH)
  then show ?case by (simp add: runEvents_def)
qed

lemma initialPage_mirrored: "mirrored initialPage"
  by (simp add: mirrored_def initialPage_def)

lemma js_indexOf_snoc_fresh: "x \<notin> set xs \<Longrightarrow> js_indexOf (xs @ [x]) x = int (length xs)"
  by (induction xs) (auto simp: Let_def)

lemma subseq_removeAt: "subseq (removeAt i xs) xs"
proof (induction xs arbitrary: i)
  case Nil
  show ?case by (simp add: removeAt_def)
next
  case (Cons x xs)
  show ?case
  proof (cases i)
    case 0
    then show ?thesis by (simp add: removeAt_def list_emb_Cons)
  next
    case (Suc j)
    with Cons.IH [of j] show ?thesis by (simp add: removeAt_def)
  qed
qed

lemma select_then_deselect_fresh:
  assumes "length (filterValues c) = length (selectedItems c)"
    and "d \<notin> set (selectedItems c)"
  shows "onDeselect d (onSelect d c) = c"
  using assms
  by (simp add: onDeselect_def onSelect_def Let_def js_indexOf_snoc_fresh removeAt_def)

section \<open>The browse service: request URLs\<close>

text \<open>
  C1. The claim: the URL of getBrowseEntriesFor (and of getBrowseItemsFor) carries each
  query parameter exactly when its own option is non-empty. For \<^verbatim>\<open>scope\<close> the source
  tests \<^verbatim>\<open>options.sort\<close> instead: with a scope and no sort, pagination or prefix the
  link comes back unchanged, without any \<^verbatim>\<open>scope\<close> parameter; with a sort and no
  scope the parameter \<^verbatim>\<open>scope=undefined\<close> is sent. In general the \<^verbatim>\<open>scope\<close>
  parameter is there exactly when the sort option is, whatever the scope. The other
  parameters do follow their own options: \<^verbatim>\<open>sort\<close> the sort option, \<^verbatim>\<open>page\<close> and
  \<^verbatim>\<open>size\<close> the pagination, \<^verbatim>\<open>startsWith\<close> the prefix, and for items
  \<^verbatim>\<open>filterValue\<close> the filter value.
\<close>

theorem getBrowseEntriesFor_scope_follows_sort:
  "getBrowseEntriesFor_href combine
     \<lparr>metadataDefinition = ''author'', pagination = None, sort_opt = None,
      startsWith = None, scope = Some ''col1''\<rparr> h = h
   \<and> getBrowseItemsFor_href combine None
     \<lparr>metadataDefinition = ''author'', pagination = None, sort_opt = None,
      startsWith = None, scope = Some ''col1''\<rparr> h = h
   \<and> getBrowseEntriesFor_args
     \<lparr>metadataDefinition = ''author'', pagination = None,
      sort_opt = Some \<lparr>field = ''title'', direction = ''ASC''\<rparr>,
      startsWith = None, scope = None\<rparr> = [''scope=undefined'', ''sort=title,ASC'']
   \<and> getBrowseItemsFor_args None
     \<lparr>metadataDefinition = ''author'', pagination = None,
      sort_opt = Some \<lparr>field = ''title'', direction = ''ASC''\<rparr>,
      startsWith = None, scope = None\<rparr> = [''scope=undefined'', ''sort=title,ASC'']
   \<and> find (prefix ''scope='') (getBrowseEntriesFor_args options) =
       (if sort_opt options = None then None
        else Some (''scope='' @ js_string_of (scope options)))
   \<and> find (prefix ''scope='') (getBrowseItemsFor_args filterValue options) =
       (if sort_opt options = None then None
        else Some (''scope='' @ js_string_of (scope options)))
   \<and> find (prefix ''sort='') (getBrowseEntriesFor_args options) =
       map_option (\<lambda>s. ''sort='' @ field s @ '','' @ direction s) (sort_opt options)
   \<and> find (prefix ''page='') (getBrowseEntriesFor_args options) =
       map_option (\<lambda>p. ''page='' @ showInt (currentPage p - 1)) (pagination options)
   \<and> find (prefix ''size='') (getBrowseEntriesFor_args options) =
       map_option (\<lambda>p. ''size='' @ showInt (pageSize p)) (pagination options)
   \<and> find (prefix ''startsWith='') (getBrowseEntriesFor_args options) =
       (if isNotEmpty_string (startsWith options)
        then Some (''startsWith='' @ js_string_of (startsWith options)) else None)
   \<and> find (prefix ''sort='') (getBrowseItemsFor_args filterValue options) =
       map_option (\<lambda>s. ''sort='' @ field s @ '','' @ direction s) (sort_opt options)
   \<and> find (prefix ''page='') (getBrowseItemsFor_args filterValue options) =
       map_option (\<lambda>p. ''page='' @ showInt (currentPage p - 1)) (pagination options)
   \<and> find (prefix ''size='') (getBrowseItemsFor_args filterValue options) =
       map_option (\<lambda>p. ''size='' @ showInt (pageSize p)) (pagination options)
   \<and> find (prefix ''startsWith='') (getBrowseItemsFor_args filterValue options) =
       (if isNotEmpty_string (startsWith options)
        then Some (''startsWith='' @ js_string_of (startsWith options)) else None)
   \<and> find (prefix ''filterValue='') (getBrowseItemsFor_args filterValue options) =
       (if isNotEmpty_string filterValue
        then Some (''filterValue='' @ js_string_of filterValue) else None)"
proof -
  have entries_scope: "find (prefix ''scope='') (getBrowseEntriesFor_args options) =
       (if sort_opt options = None then None
        else Some (''scope='' @ js_string_of (scope options)))"
    by (cases "sort_opt options"; cases "pagination options")
       (simp_all add: getBrowseEntriesFor_args_def Let_def
          isNotEmpty_object_def isEmpty_object_def)
  have items_scope: "find (prefix ''scope='') (getBrowseItemsFor_args filterValue options) =
       (if sort_opt options = None then None
        else Some (''scope='' @ js_string_of (scope options)))"
    by (cases "sort_opt options"; cases "pagination options")
       (simp_all add: getBrowseItemsFor_args_def Let_def
          isNotEmpty_object_def isEmpty_object_def)
  have entries_others:
    "find (prefix ''sort='') (getBrowseEntriesFor_args options) =
       map_option (\<lambda>s. ''sort='' @ field s @ '','' @ direction s) (sort_opt options)
   \<and> find (prefix ''page='') (getBrowseEntriesFor_args options) =
       map_option (\<lambda>p. ''page='' @ showInt (currentPage p - 1)) (pagination options)
   \<and> find (prefix ''size='') (getBrowseEntriesFor_args options) =
       map_option (\<lambda>p. ''size='' @ showInt (pageSize p)) (pagination options)
   \<and> find (prefix ''startsWith='') (getBrowseEntriesFor_args options) =
       (if isNotEmpty_string (startsWith options)
        then Some (''startsWith='' @ js_string_of (startsWith options)) else None)"
    by (cases "sort_opt options"; cases "pagination options")
       (simp_all add: getBrowseEntriesFor_args_def Let_def
          isNotEmpty_object_def isEmpty_object_def)
  have items_others:
    "find (prefix ''sort='') (getBrowseItemsFor_args filterValue options) =
       map_option (\<lambda>s. ''sort='' @ field s @ '','' @ direction s) (sort_opt options)
   \<and> find (prefix ''page='') (getBrowseItemsFor_args filterValue options) =
       map_option (\<lambda>p. ''page='' @ showInt (currentPage p - 1)) (pagination options)
   \<and> find (prefix ''size='') (getBrowseItemsFor_args filterValue options) =
       map_option (\<lambda>p. ''size='' @ showInt (pageSize p)) (pagination options)
   \<and> find (prefix ''startsWith='') (getBrowseItemsFor_args filterValue options) =
       (if isNotEmpty_string (startsWith options)
        then Some (''startsWith='' @ js_string_of (startsWith options)) else None)
   \<and> find (prefix ''filterValue='') (getBrowseItemsFor_args filterValue options) =
       (if isNotEmpty_string filterValue
        then Some (''filterValue='' @ js_string_of filterValue) else None)"
    by (cases "sort_opt options"; cases "pagination options")
       (simp_all add: getBrowseItemsFor_args_def Let_def
          isNotEmpty_object_def isEmpty_object_def)
  have concrete: "getBrowseEntriesFor_href combine
     \<lparr>metadataDefinition = ''author'', pagination = None, sort_opt = None,
      startsWith = None, scope = Some ''col1''\<rparr> h = h
   \<and> getBrowseItemsFor_href combine None
     \<lparr>metadataDefinition = ''author'', pagination = None, sort_opt = None,
      startsWith = None, scope = Some ''col1''\<rparr> h = h
   \<and> getBrowseEntriesFor_args
     \<lparr>metadataDefinition = ''author'', pagination = None,
      sort_opt = Some \<lparr>field = ''title'', direction = ''ASC''\<rparr>,
      startsWith = None, scope = None\<rparr> = [''scope=undefined'', ''sort=title,ASC'']
   \<and> getBrowseItemsFor_args None
     \<lparr>metadataDefinition = ''author'', pagination = None,
      sort_opt = Some \<lparr>field = ''title'', direction = ''ASC''\<rparr>,
      startsWith = None, scope = None\<rparr> = [''scope=undefined'', ''sort=title,ASC'']"
    by (simp add: getBrowseEntriesFor_href_def getBrowseEntriesFor_args_def
        getBrowseItemsFor_href_def getBrowseItemsFor_args_def
        isNotEmpty_object_def isEmpty_object_def isNotEmpty_string_def isEmpty_string_def
        isNotEmpty_array_def isEmpty_array_def js_string_of_def)
  from concrete entries_scope items_scope entries_others items_others
  show ?thesis by simp
qed

text \<open>
  C7. For every optional scope, the arguments of getFirstItemFor always hold
  \<^verbatim>\<open>page=0\<close> and \<^verbatim>\<open>size=1\<close>, and a \<^verbatim>\<open>scope\<close> argument exactly when a scope is
  given; the URL is always the link combined with the query string ending in
  \<^verbatim>\<open>page=0&size=1\<close>; one BrowseItemsRequest for that URL is configured; and the payload
  delivered is the first element of the page held for that URL (nothing when there is
  no page or it is empty).
\<close>

theorem getFirstItemFor_page0_size1:
  "''page=0'' \<in> set (getFirstItemFor_args scope_arg)
   \<and> ''size=1'' \<in> set (getFirstItemFor_args scope_arg)
   \<and> find (prefix ''scope='') (getFirstItemFor_args scope_arg) =
       map_option (\<lambda>v. ''scope='' @ v) scope_arg
   \<and> getFirstItemFor_href combine scope_arg h =
       combine [h, ''?'' @ (case scope_arg of None \<Rightarrow> [] | Some v \<Rightarrow> ''scope='' @ v @ ''&'')
                       @ ''page=0&size=1'']
   \<and> fst (getFirstItemFor combine generateRequestId respond configured scope_arg h) =
       configured @ [\<lparr>uuid = generateRequestId configured,
                      href = Some (getFirstItemFor_href combine scope_arg h),
                      kind = BrowseItemsRequest\<rparr>]
   \<and> payload (snd (getFirstItemFor combine generateRequestId respond configured scope_arg h)) =
       (case payload (respond (Some (getFirstItemFor_href combine scope_arg h))) of
          None \<Rightarrow> None
        | Some list \<Rightarrow> (case page list of [] \<Rightarrow> None | x # xs \<Rightarrow> Some x))"
  by (cases scope_arg)
     (simp_all add: getFirstItemFor_def getFirstItemFor_href_def getFirstItemFor_args_def
        getBrowseItemsFor_op_def getFirstOccurrence_def hasValue_def js_string_of_def
        isNotEmpty_array_def isEmpty_array_def)

text \<open>
  The URLs of getFirstItemFor with and without a scope, with string concatenation for
  the URL combiner, and the first of two items of a page.
\<close>

theorem getFirstItemFor_page0_size1_witness:
  "getFirstItemFor_href concat (Some ''col1'') ''rest/browses/author/items'' =
     ''rest/browses/author/items?scope=col1&page=0&size=1''
   \<and> getFirstItemFor_href concat None ''rest/browses/author/items'' =
     ''rest/browses/author/items?page=0&size=1''
   \<and> payload (snd (getFirstItemFor concat (\<lambda>c. ''id'')
        (\<lambda>u. \<lparr>payload = Some \<lparr>prev = None, next = None, page = [''item1'', ''item2'']\<rparr>\<rparr>)
        [] None ''rest/browses/author/items'')) = Some ''item1''"
  using getFirstItemFor_page0_size1 [of "Some ''col1''" concat "''rest/browses/author/items''"
          "\<lambda>c. ''id''"
          "\<lambda>u. \<lparr>payload = Some \<lparr>prev = None, next = None, page = [''item1'', ''item2'']\<rparr>\<rparr>" "[]"]
        getFirstItemFor_page0_size1 [of None concat "''rest/browses/author/items''"
          "\<lambda>c. ''id''"
          "\<lambda>u. \<lparr>payload = Some \<lparr>prev = None, next = None, page = [''item1'', ''item2'']\<rparr>\<rparr>" "[]"]
  by simp

text \<open>
  C10. getPrevBrowseItems and getNextBrowseItems read the payload without a guard: with
  no payload both throw a TypeError; with a payload each configures one BrowseItemsRequest
  whose URL is exactly the \<^verbatim>\<open>prev\<close> (respectively \<^verbatim>\<open>next\<close>) link of the payload,
  also when that link is absent, and yields what is held for that link.
\<close>

theorem getPrevNextBrowseItems_unguarded:
  "(payload items = None \<longrightarrow>
      getPrevBrowseItems generateRequestId respond configured items = Inl TypeError
      \<and> getNextBrowseItems generateRequestId respond configured items = Inl TypeError)
   \<and> (\<forall>list. payload items = Some list \<longrightarrow>
      getPrevBrowseItems generateRequestId respond configured items =
        Inr (configured @ [\<lparr>uuid = generateRequestId configured, href = prev list,
                             kind = BrowseItemsRequest\<rparr>],
             respond (prev list))
      \<and> getNextBrowseItems generateRequestId respond configured items =
        Inr (configured @ [\<lparr>uuid = generateRequestId configured, href = next list,
                             kind = BrowseItemsRequest\<rparr>],
             respond (next list)))"
  by (simp add: getPrevBrowseItems_def getNextBrowseItems_def getBrowseItemsFor_op_def)

text \<open>
  Both cases at concrete inputs: remote data without a payload, and a first page whose
  \<^verbatim>\<open>prev\<close> link is absent (the request is made with no URL).
\<close>

theorem getPrevNextBrowseItems_unguarded_witness:
  "payload (\<lparr>payload = None\<rparr> :: string PaginatedList RemoteData) = None
   \<and> getPrevBrowseItems (\<lambda>c. ''id'') (\<lambda>u. \<lparr>payload = None\<rparr>) []
        (\<lparr>payload = None\<rparr> :: string PaginatedList RemoteData) = Inl TypeError
   \<and> getNextBrowseItems (\<lambda>c. ''id'') (\<lambda>u. \<lparr>payload = None\<rparr>) []
        (\<lparr>payload = None\<rparr> :: string PaginatedList RemoteData) = Inl TypeError
   \<and> payload \<lparr>payload = Some \<lparr>prev = None, next = Some ''rest/items?page=1'', page = [''item1'']\<rparr>\<rparr>
       = Some \<lparr>prev = None, next = Some ''rest/items?page=1'', page = [''item1'']\<rparr>
   \<and> getPrevBrowseItems (\<lambda>c. ''id'') (\<lambda>u. \<lparr>payload = None\<rparr>) []
        \<lparr>payload = Some \<lparr>prev = None, next = Some ''rest/items?page=1'', page = [''item1'']\<rparr>\<rparr>
       = Inr ([\<lparr>uuid = ''id'', href = None, kind = BrowseItemsRequest\<rparr>],
              (\<lparr>payload = None\<rparr> :: string PaginatedList RemoteData))
   \<and> getNextBrowseItems (\<lambda>c. ''id'') (\<lambda>u. \<lparr>payload = None\<rparr>) []
        \<lparr>payload = Some \<lparr>prev = None, next = Some ''rest/items?page=1'', page = [''item1'']\<rparr>\<rparr>
       = Inr ([\<lparr>uuid = ''id'', href = Some ''rest/items?page=1'', kind = BrowseItemsRequest\<rparr>],
              (\<lparr>payload = None\<rparr> :: string PaginatedList RemoteData))"
  using getPrevNextBrowseItems_unguarded [of "\<lparr>payload = None\<rparr> :: string PaginatedList RemoteData"
          "\<lambda>c. ''id''" "\<lambda>u. \<lparr>payload = None\<rparr>" "[]"]
        getPrevNextBrowseItems_unguarded
          [of "\<lparr>payload = Some \<lparr>prev = None, next = Some ''rest/items?page=1'', page = [''item1'']\<rparr>\<rparr>"
          "\<lambda>c. ''id''" "\<lambda>u. \<lparr>payload = None\<rparr> :: string PaginatedList RemoteData" "[]"]
  by simp

section \<open>The browse service: getBrowseURLFor and toSearchKeyArray\<close>

text \<open>
  C3. toSearchKeyArray applied to \<^verbatim>\<open>a.b.c\<close> returns exactly
  \<^verbatim>\<open>["*", "a.*", "a.b.*", "a.b.c"]\<close>. In general, for a key with n dot-separated
  parts it returns \<^verbatim>\<open>*\<close>, then the n-1 wildcards built from the proper prefixes of the
  parts in increasing length (the first j+1 parts joined by dots, followed by \<^verbatim>\<open>.*\<close>),
  then the full key: n+1 entries in all.
\<close>

theorem toSearchKeyArray_expansion:
  "toSearchKeyArray ''a.b.c'' = [''*'', ''a.*'', ''a.b.*'', ''a.b.c'']
   \<and> toSearchKeyArray metadatumKey =
       ''*'' # map (\<lambda>j. js_join ''.'' (take (Suc j) (js_split CHR ''.'' metadatumKey)) @ ''.*'')
                  [0 ..< length (js_split CHR ''.'' metadatumKey) - 1]
       @ [metadatumKey]
   \<and> length (toSearchKeyArray metadatumKey) = length (js_split CHR ''.'' metadatumKey) + 1"
proof -
  have parts: "js_split CHR ''.'' ''a.b.c'' = [''a'', ''b'', ''c'']"
    by simp
  have concrete: "toSearchKeyArray ''a.b.c'' = [''*'', ''a.*'', ''a.b.*'', ''a.b.c'']"
    unfolding toSearchKeyArray_closed parts by (simp add: upt_conv_Cons)
  have len: "length (toSearchKeyArray metadatumKey) = length (js_split CHR ''.'' metadatumKey) + 1"
    using js_split_not_Nil [of "CHR ''.''" metadatumKey]
    unfolding toSearchKeyArray_closed by (cases "js_split CHR ''.'' metadatumKey") auto
  from concrete toSearchKeyArray_closed [of metadatumKey] len show ?thesis by blast
qed

text \<open>
  C2, as amended. For every non-empty metadatumKey and every linkPath that is not the
  name of a member of \<^verbatim>\<open>Object.prototype\<close>, getBrowseURLFor selects the first browse
  definition whose metadataKeys list intersects the search-key sequence of the key and
  yields that definition's link for linkPath; it raises the "not configured" error
  exactly when no definition's key list intersects the sequence, or the selected
  definition has no link table, no link for linkPath, or the empty string as that link.
  On a stream of one list of definitions the subscriber gets \<^verbatim>\<open>undefined\<close> and then
  that link or that error.
\<close>

theorem getBrowseURLFor_first_intersecting:
  assumes "metadatumKey \<noteq> []"
    and "linkPath \<notin> set objectPrototypeMembers"
  shows "getBrowseURLFor_emit metadatumKey linkPath browseDefinitions =
           (case find (\<lambda>d. set (metadataKeys d) \<inter> set (toSearchKeyArray metadatumKey) \<noteq> {})
                   browseDefinitions of
              None \<Rightarrow> Inl (notConfigured linkPath metadatumKey)
            | Some d \<Rightarrow>
                (case links d of
                   None \<Rightarrow> Inl (notConfigured linkPath metadatumKey)
                 | Some l \<Rightarrow>
                     (case l linkPath of
                        None \<Rightarrow> Inl (notConfigured linkPath metadatumKey)
                      | Some h \<Rightarrow> if h = [] then Inl (notConfigured linkPath metadatumKey)
                                  else Inr (JsString h))))
         \<and> getBrowseURLFor metadatumKey linkPath [Next browseDefinitions] =
           (case getBrowseURLFor_emit metadatumKey linkPath browseDefinitions of
              Inl e \<Rightarrow> [Next None, Thrown e]
            | Inr h \<Rightarrow> [Next None, Next (Some h)])"
proof -
  have "[] \<notin> set (toSearchKeyArray metadatumKey)"
    using assms(1) by (rule empty_notin_toSearchKeyArray)
  then have found: "findDefinition (toSearchKeyArray metadatumKey) browseDefinitions =
      find (\<lambda>d. set (metadataKeys d) \<inter> set (toSearchKeyArray metadatumKey) \<noteq> {}) browseDefinitions"
    by (rule findDefinition_intersects)
  have own: "js_property l linkPath = map_option JsString (l linkPath)" for l
    using assms(2) by (simp add: js_property_def split: option.splits)
  have emit: "getBrowseURLFor_emit metadatumKey linkPath browseDefinitions =
           (case find (\<lambda>d. set (metadataKeys d) \<inter> set (toSearchKeyArray metadatumKey) \<noteq> {})
                   browseDefinitions of
              None \<Rightarrow> Inl (notConfigured linkPath metadatumKey)
            | Some d \<Rightarrow>
                (case links d of
                   None \<Rightarrow> Inl (notConfigured linkPath metadatumKey)
                 | Some l \<Rightarrow>
                     (case l linkPath of
                        None \<Rightarrow> Inl (notConfigured linkPath metadatumKey)
                      | Some h \<Rightarrow> if h = [] then Inl (notConfigured linkPath metadatumKey)
                                  else Inr (JsString h))))"
    unfolding getBrowseURLFor_emit_def found
    by (simp add: linkOrThrow_def own isEmpty_value_def split: option.splits)
  have stream: "getBrowseURLFor metadatumKey linkPath [Next browseDefinitions] =
           (case getBrowseURLFor_emit metadatumKey linkPath browseDefinitions of
              Inl e \<Rightarrow> [Next None, Thrown e]
            | Inr h \<Rightarrow> [Next None, Next (Some h)])"
    unfolding getBrowseURLFor_first_emission by (simp split: sum.splits)
  from emit stream show ?thesis by (rule conjI)
qed

text \<open>
  The key \<^verbatim>\<open>dc.contributor.author\<close> against a title definition and an author
  definition listed under \<^verbatim>\<open>dc.contributor.*\<close>: the author definition's link.
\<close>

theorem getBrowseURLFor_first_intersecting_witness:
  "''dc.contributor.author'' \<noteq> []
   \<and> ''items'' \<notin> set objectPrototypeMembers
   \<and> getBrowseURLFor_emit ''dc.contributor.author'' ''items''
       [\<lparr>metadataKeys = [''dc.title''], links = Some [''items'' \<mapsto> ''rest/browses/title/items'']\<rparr>,
        \<lparr>metadataKeys = [''dc.creator'', ''dc.contributor.*''],
         links = Some [''items'' \<mapsto> ''rest/browses/author/items'']\<rparr>]
     = Inr (JsString ''rest/browses/author/items'')
   \<and> getBrowseURLFor ''dc.contributor.author'' ''items''
       [Next [\<lparr>metadataKeys = [''dc.title''], links = Some [''items'' \<mapsto> ''rest/browses/title/items'']\<rparr>,
        \<lparr>metadataKeys = [''dc.creator'', ''dc.contributor.*''],
         links = Some [''items'' \<mapsto> ''rest/browses/author/items'']\<rparr>]]
     = [Next None, Next (Some (JsString ''rest/browses/author/items''))]"
proof -
  have keys: "toSearchKeyArray ''dc.contributor.author'' =
      [''*'', ''dc.*'', ''dc.contributor.*'', ''dc.contributor.author'']"
    by (simp add: toSearchKeyArray_closed upt_conv_Cons)
  have nonempty: "''dc.contributor.author'' \<noteq> []" by simp
  have own: "''items'' \<notin> set objectPrototypeMembers"
    by (simp add: objectPrototypeMembers_def)
  show ?thesis
    using getBrowseURLFor_first_intersecting [OF nonempty own, of
       "[\<lparr>metadataKeys = [''dc.title''], links = Some [''items'' \<mapsto> ''rest/browses/title/items'']\<rparr>,
        \<lparr>metadataKeys = [''dc.creator'', ''dc.contributor.*''],
         links = Some [''items'' \<mapsto> ''rest/browses/author/items'']\<rparr>]"] own
    by (simp add: keys)
qed

text \<open>
  C2 as stated fails at three inputs. With the empty metadatumKey the search-key sequence
  is \<^verbatim>\<open>["*", ""]\<close>; a definition listing the empty key intersects it and has a link,
  yet the key found is the empty string, \<^verbatim>\<open>isNotEmpty\<close> rejects it, and the error is
  raised. A definition that is found and whose link for linkPath is the empty string
  raises the error too. And for the linkPath \<^verbatim>\<open>constructor\<close> a definition that is found
  and has no link of that name raises no error: the read of its link table gives the
  inherited member, and that is delivered.
\<close>

theorem getBrowseURLFor_empty_key_counterexample:
  "find (\<lambda>d. set (metadataKeys d) \<inter> set (toSearchKeyArray '''') \<noteq> {})
     [\<lparr>metadataKeys = [''''], links = Some [''items'' \<mapsto> ''rest/browses/any/items'']\<rparr>]
     = Some \<lparr>metadataKeys = [''''], links = Some [''items'' \<mapsto> ''rest/browses/any/items'']\<rparr>
   \<and> getBrowseURLFor_emit '''' ''items''
       [\<lparr>metadataKeys = [''''], links = Some [''items'' \<mapsto> ''rest/browses/any/items'']\<rparr>]
     = Inl (notConfigured ''items'' '''')
   \<and> find (\<lambda>d. set (metadataKeys d) \<inter> set (toSearchKeyArray ''dc.title'') \<noteq> {})
     [\<lparr>metadataKeys = [''dc.title''], links = Some [''items'' \<mapsto> '''']\<rparr>]
     = Some \<lparr>metadataKeys = [''dc.title''], links = Some [''items'' \<mapsto> '''']\<rparr>
   \<and> getBrowseURLFor_emit ''dc.title'' ''items''
       [\<lparr>metadataKeys = [''dc.title''], links = Some [''items'' \<mapsto> '''']\<rparr>]
     = Inl (notConfigured ''items'' ''dc.title'')
   \<and> find (\<lambda>d. set (metadataKeys d) \<inter> set (toSearchKeyArray ''dc.title'') \<noteq> {})
     [\<lparr>metadataKeys = [''dc.title''], links = Some [''items'' \<mapsto> ''rest/browses/title/items'']\<rparr>]
     = Some \<lparr>metadataKeys = [''dc.title''],
             links = Some [''items'' \<mapsto> ''rest/browses/title/items'']\<rparr>
   \<and> [''items'' \<mapsto> ''rest/browses/title/items''] ''constructor'' = None
   \<and> getBrowseURLFor_emit ''dc.title'' ''constructor''
       [\<lparr>metadataKeys = [''dc.title''], links = Some [''items'' \<mapsto> ''rest/browses/title/items'']\<rparr>]
     = Inr (JsInherited ''constructor'')
   \<and> getBrowseURLFor ''dc.title'' ''constructor''
       [Next [\<lparr>metadataKeys = [''dc.title''],
               links = Some [''items'' \<mapsto> ''rest/browses/title/items'']\<rparr>]]
     = [Next None, Next (Some (JsInherited ''constructor''))]"
proof -
  have k0: "toSearchKeyArray '''' = [''*'', '''']"
    by (simp add: toSearchKeyArray_closed)
  have k1: "toSearchKeyArray ''dc.title'' = [''*'', ''dc.*'', ''dc.title'']"
    by (simp add: toSearchKeyArray_closed upt_conv_Cons)
  have emits: "getBrowseURLFor_emit '''' ''items''
       [\<lparr>metadataKeys = [''''], links = Some [''items'' \<mapsto> ''rest/browses/any/items'']\<rparr>]
     = Inl (notConfigured ''items'' '''')
   \<and> getBrowseURLFor_emit ''dc.title'' ''items''
       [\<lparr>metadataKeys = [''dc.title''], links = Some [''items'' \<mapsto> '''']\<rparr>]
     = Inl (notConfigured ''items'' ''dc.title'')
   \<and> getBrowseURLFor_emit ''dc.title'' ''constructor''
       [\<lparr>metadataKeys = [''dc.title''], links = Some [''items'' \<mapsto> ''rest/browses/title/items'']\<rparr>]
     = Inr (JsInherited ''constructor'')"
    by (simp add: k0 k1 getBrowseURLFor_emit_def findDefinition_def linkOrThrow_def
        isNotEmpty_string_def isEmpty_string_def isEmpty_value_def js_property_def
        objectPrototypeMembers_def)
  have stream: "getBrowseURLFor ''dc.title'' ''constructor''
       [Next [\<lparr>metadataKeys = [''dc.title''],
               links = Some [''items'' \<mapsto> ''rest/browses/title/items'']\<rparr>]]
     = [Next None, Next (Some (JsInherited ''constructor''))]"
    unfolding getBrowseURLFor_first_emission by (simp add: emits)
  from emits stream show ?thesis
    by (simp add: k0 k1)
qed

text \<open>
  C9. For every metadatumKey and linkPath and every stream of definitions, what
  getBrowseURLFor delivers is never nothing and starts with \<^verbatim>\<open>undefined\<close>: when the
  first list of definitions raises the error, the subscriber gets \<^verbatim>\<open>undefined\<close> and
  then the error; when it yields a link, \<^verbatim>\<open>undefined\<close> and then the link.
\<close>

theorem getBrowseURLFor_starts_undefined:
  "getBrowseURLFor metadatumKey linkPath definitions \<noteq> []
   \<and> hd (getBrowseURLFor metadatumKey linkPath definitions) = Next None
   \<and> (\<forall>e. getBrowseURLFor_emit metadatumKey linkPath browseDefinitions = Inl e \<longrightarrow>
          getBrowseURLFor metadatumKey linkPath (Next browseDefinitions # later) =
            [Next None, Thrown e])
   \<and> (\<forall>h. getBrowseURLFor_emit metadatumKey linkPath browseDefinitions = Inr h \<longrightarrow>
          take 2 (getBrowseURLFor metadatumKey linkPath (Next browseDefinitions # later)) =
            [Next None, Next (Some h)])"
  unfolding getBrowseURLFor_first_emission
  by (simp add: getBrowseURLFor_head)

text \<open>
  Both cases at concrete inputs: no definition at all (the error follows
  \<^verbatim>\<open>undefined\<close>), and a title definition with an items link (the link follows
  \<^verbatim>\<open>undefined\<close>).
\<close>

theorem getBrowseURLFor_starts_undefined_witness:
  "getBrowseURLFor_emit ''dc.title'' ''items'' [] = Inl (notConfigured ''items'' ''dc.title'')
   \<and> getBrowseURLFor ''dc.title'' ''items'' [Next [], Next []] =
       [Next None, Thrown (notConfigured ''items'' ''dc.title'')]
   \<and> getBrowseURLFor_emit ''dc.title'' ''items''
       [\<lparr>metadataKeys = [''dc.title''], links = Some [''items'' \<mapsto> ''rest/browses/title/items'']\<rparr>]
       = Inr (JsString ''rest/browses/title/items'')
   \<and> take 2 (getBrowseURLFor ''dc.title'' ''items''
       [Next [\<lparr>metadataKeys = [''dc.title''], links = Some [''items'' \<mapsto> ''rest/browses/title/items'']\<rparr>],
        Next []]) = [Next None, Next (Some (JsString ''rest/browses/title/items''))]"
proof -
  have k1: "toSearchKeyArray ''dc.title'' = [''*'', ''dc.*'', ''dc.title'']"
    by (simp add: toSearchKeyArray_closed upt_conv_Cons)
  have e1: "getBrowseURLFor_emit ''dc.title'' ''items'' [] = Inl (notConfigured ''items'' ''dc.title'')"
    by (simp add: getBrowseURLFor_emit_def findDefinition_def linkOrThrow_def)
  have e2: "getBrowseURLFor_emit ''dc.title'' ''items''
       [\<lparr>metadataKeys = [''dc.title''], links = Some [''items'' \<mapsto> ''rest/browses/title/items'']\<rparr>]
       = Inr (JsString ''rest/browses/title/items'')"
    by (simp add: k1 getBrowseURLFor_emit_def findDefinition_def linkOrThrow_def
        isNotEmpty_string_def isEmpty_string_def isEmpty_value_def js_property_def)
  show ?thesis
    using getBrowseURLFor_starts_undefined [of "''dc.title''" "''items''" "[]" "[]" "[Next []]"]
          getBrowseURLFor_starts_undefined [of "''dc.title''" "''items''" "[]"
            "[\<lparr>metadataKeys = [''dc.title''], links = Some [''items'' \<mapsto> ''rest/browses/title/items'']\<rparr>]"
            "[Next []]"]
          e1 e2
    by simp
qed

section \<open>The browse-by-taxonomy page\<close>

text \<open>
  C4. After any sequence of onSelect and onDeselect calls from the initial state,
  selectedItems and filterValues are equally long and for every index i the i-th filter
  string is the value of the i-th selected item followed by \<^verbatim>\<open>,equals\<close>. Both onSelect
  and onDeselect preserve this invariant, in every state and for every entry.
\<close>

theorem taxonomy_filterValues_mirror_selectedItems:
  "length (selectedItems (runEvents events initialPage)) =
     length (filterValues (runEvents events initialPage))
   \<and> (\<forall>i < length (filterValues (runEvents events initialPage)).
         filterValues (runEvents events initialPage) ! i =
           detail_value (selectedItems (runEvents events initialPage) ! i) @ '',equals'')
   \<and> (mirrored c \<longrightarrow> mirrored (onSelect d c))
   \<and> (mirrored c \<longrightarrow> mirrored (onDeselect d c))"
proof -
  have "mirrored (runEvents events initialPage)"
    using initialPage_mirrored by (rule runEvents_mirrored)
  then have run: "length (selectedItems (runEvents events initialPage)) =
           length (filterValues (runEvents events initialPage))
         \<and> (\<forall>i < length (filterValues (runEvents events initialPage)).
               filterValues (runEvents events initialPage) ! i =
                 detail_value (selectedItems (runEvents events initialPage) ! i) @ '',equals'')"
    by (simp add: mirrored_def filterString_def)
  from run show ?thesis
    by (simp add: onSelect_mirrored onDeselect_mirrored)
qed

text \<open>
  The sequence of the component's test (select two entries, deselect the first), and
  one step of each kind from a state that satisfies the invariant.
\<close>

theorem taxonomy_filterValues_mirror_selectedItems_witness:
  "selectedItems (runEvents
      [Select \<lparr>detail_label = ''Humanities'', detail_value = ''HUMANITIES and RELIGION''\<rparr>,
       Select \<lparr>detail_label = ''Technology'', detail_value = ''TECHNOLOGY''\<rparr>,
       Deselect \<lparr>detail_label = ''Humanities'', detail_value = ''HUMANITIES and RELIGION''\<rparr>]
      initialPage) = [\<lparr>detail_label = ''Technology'', detail_value = ''TECHNOLOGY''\<rparr>]
   \<and> filterValues (runEvents
      [Select \<lparr>detail_label = ''Humanities'', detail_value = ''HUMANITIES and RELIGION''\<rparr>,
       Select \<lparr>detail_label = ''Technology'', detail_value = ''TECHNOLOGY''\<rparr>,
       Deselect \<lparr>detail_label = ''Humanities'', detail_value = ''HUMANITIES and RELIGION''\<rparr>]
      initialPage) = [''TECHNOLOGY,equals'']
   \<and> filterValues (runEvents
      [Select \<lparr>detail_label = ''Humanities'', detail_value = ''HUMANITIES and RELIGION''\<rparr>,
       Select \<lparr>detail_label = ''Technology'', detail_value = ''TECHNOLOGY''\<rparr>,
       Deselect \<lparr>detail_label = ''Humanities'', detail_value = ''HUMANITIES and RELIGION''\<rparr>]
      initialPage) ! 0 =
     detail_value (selectedItems (runEvents
      [Select \<lparr>detail_label = ''Humanities'', detail_value = ''HUMANITIES and RELIGION''\<rparr>,
       Select \<lparr>detail_label = ''Technology'', detail_value = ''TECHNOLOGY''\<rparr>,
       Deselect \<lparr>detail_label = ''Humanities'', detail_value = ''HUMANITIES and RELIGION''\<rparr>]
      initialPage) ! 0) @ '',equals''
   \<and> mirrored \<lparr>selectedItems = [\<lparr>detail_label = ''Technology'', detail_value = ''TECHNOLOGY''\<rparr>],
                filterValues = [''TECHNOLOGY,equals'']\<rparr>
   \<and> mirrored (onSelect \<lparr>detail_label = ''Humanities'', detail_value = ''HUMANITIES and RELIGION''\<rparr>
        \<lparr>selectedItems = [\<lparr>detail_label = ''Technology'', detail_value = ''TECHNOLOGY''\<rparr>],
         filterValues = [''TECHNOLOGY,equals'']\<rparr>)
   \<and> mirrored (onDeselect \<lparr>detail_label = ''Technology'', detail_value = ''TECHNOLOGY''\<rparr>
        \<lparr>selectedItems = [\<lparr>detail_label = ''Technology'', detail_value = ''TECHNOLOGY''\<rparr>],
         filterValues = [''TECHNOLOGY,equals'']\<rparr>)"
proof -
  have run: "runEvents
      [Select \<lparr>detail_label = ''Humanities'', detail_value = ''HUMANITIES and RELIGION''\<rparr>,
       Select \<lparr>detail_label = ''Technology'', detail_value = ''TECHNOLOGY''\<rparr>,
       Deselect \<lparr>detail_label = ''Humanities'', detail_value = ''HUMANITIES and RELIGION''\<rparr>]
      initialPage =
      \<lparr>selectedItems = [\<lparr>detail_label = ''Technology'', detail_value = ''TECHNOLOGY''\<rparr>],
       filterValues = [''TECHNOLOGY,equals'']\<rparr>"
    by (simp add: runEvents_def initialPage_def onSelect_def onDeselect_def filterString_def
        removeAt_def)
  have start: "mirrored
      \<lparr>selectedItems = [\<lparr>detail_label = ''Technology'', detail_value = ''TECHNOLOGY''\<rparr>],
       filterValues = [''TECHNOLOGY,equals'']\<rparr>"
    by (simp add: mirrored_def filterString_def)
  show ?thesis
    using taxonomy_filterValues_mirror_selectedItems [of
        "[Select \<lparr>detail_label = ''Humanities'', detail_value = ''HUMANITIES and RELIGION''\<rparr>,
          Select \<lparr>detail_label = ''Technology'', detail_value = ''TECHNOLOGY''\<rparr>,
          Deselect \<lparr>detail_label = ''Humanities'', detail_value = ''HUMANITIES and RELIGION''\<rparr>]"
        "\<lparr>selectedItems = [\<lparr>detail_label = ''Technology'', detail_value = ''TECHNOLOGY''\<rparr>],
          filterValues = [''TECHNOLOGY,equals'']\<rparr>"
        "\<lparr>detail_label = ''Humanities'', detail_value = ''HUMANITIES and RELIGION''\<rparr>"]
      taxonomy_filterValues_mirror_selectedItems [of "[]"
        "\<lparr>selectedItems = [\<lparr>detail_label = ''Technology'', detail_value = ''TECHNOLOGY''\<rparr>],
          filterValues = [''TECHNOLOGY,equals'']\<rparr>"
        "\<lparr>detail_label = ''Technology'', detail_value = ''TECHNOLOGY''\<rparr>"]
      start
    by (simp add: run)
qed

text \<open>
  C5. From the empty state, selecting an entry A and then an entry B gives the filter
  strings of A and B in that order, and deselecting A then leaves the filter string of B
  alone (and B as the only selected item). In every state, what onDeselect leaves of
  either list is a subsequence of what was there: the remaining entries keep their
  relative order.
\<close>

theorem taxonomy_select_two_deselect_first:
  "filterValues (onSelect b (onSelect a initialPage)) =
     [detail_value a @ '',equals'', detail_value b @ '',equals'']
   \<and> selectedItems (onSelect b (onSelect a initialPage)) = [a, b]
   \<and> filterValues (onDeselect a (onSelect b (onSelect a initialPage))) =
     [detail_value b @ '',equals'']
   \<and> selectedItems (onDeselect a (onSelect b (onSelect a initialPage))) = [b]
   \<and> subseq (filterValues (onDeselect d c)) (filterValues c)
   \<and> subseq (selectedItems (onDeselect d c)) (selectedItems c)"
proof -
  have two: "onSelect b (onSelect a initialPage) =
      \<lparr>selectedItems = [a, b],
       filterValues = [detail_value a @ '',equals'', detail_value b @ '',equals'']\<rparr>"
    by (simp add: onSelect_def initialPage_def filterString_def)
  have one: "onDeselect a (onSelect b (onSelect a initialPage)) =
      \<lparr>selectedItems = [b], filterValues = [detail_value b @ '',equals'']\<rparr>"
    unfolding two by (simp add: onDeselect_def removeAt_def)
  have order: "subseq (filterValues (onDeselect d c)) (filterValues c)
      \<and> subseq (selectedItems (onDeselect d c)) (selectedItems c)"
    by (simp add: onDeselect_def Let_def subseq_removeAt)
  from two one order show ?thesis by simp
qed

text \<open>The two entries of the component's test.\<close>

theorem taxonomy_select_two_deselect_first_witness:
  "filterValues
       (onSelect \<lparr>detail_label = ''Technology'', detail_value = ''TECHNOLOGY''\<rparr>
         (onSelect \<lparr>detail_label = ''Humanities'', detail_value = ''HUMANITIES and RELIGION''\<rparr>
            initialPage))
     = [''HUMANITIES and RELIGION,equals'', ''TECHNOLOGY,equals'']
   \<and> filterValues
       (onDeselect \<lparr>detail_label = ''Humanities'', detail_value = ''HUMANITIES and RELIGION''\<rparr>
         (onSelect \<lparr>detail_label = ''Technology'', detail_value = ''TECHNOLOGY''\<rparr>
           (onSelect \<lparr>detail_label = ''Humanities'', detail_value = ''HUMANITIES and RELIGION''\<rparr>
              initialPage)))
     = [''TECHNOLOGY,equals'']"
  using taxonomy_select_two_deselect_first [of
      "\<lparr>detail_label = ''Technology'', detail_value = ''TECHNOLOGY''\<rparr>"
      "\<lparr>detail_label = ''Humanities'', detail_value = ''HUMANITIES and RELIGION''\<rparr>"]
  by simp

text \<open>
  C6, as amended. For every state of the component (every state that a sequence of
  onSelect and onDeselect calls reaches from the initial one) and every entry that is not
  already among the selected items, onSelect followed by onDeselect of that entry gives
  back the state as it was: selectedItems and filterValues are unchanged.
\<close>

theorem taxonomy_select_then_deselect:
  assumes "d \<notin> set (selectedItems (runEvents events initialPage))"
  shows "onDeselect d (onSelect d (runEvents events initialPage)) = runEvents events initialPage
         \<and> selectedItems (onDeselect d (onSelect d (runEvents events initialPage))) =
             selectedItems (runEvents events initialPage)
         \<and> filterValues (onDeselect d (onSelect d (runEvents events initialPage))) =
             filterValues (runEvents events initialPage)"
proof -
  have "mirrored (runEvents events initialPage)"
    using initialPage_mirrored by (rule runEvents_mirrored)
  then have "length (filterValues (runEvents events initialPage)) =
             length (selectedItems (runEvents events initialPage))"
    by (simp add: mirrored_def)
  then have "onDeselect d (onSelect d (runEvents events initialPage)) =
             runEvents events initialPage"
    using assms by (rule select_then_deselect_fresh)
  then show ?thesis by simp
qed

text \<open>Selecting and deselecting a second entry next to one that stays selected.\<close>

theorem taxonomy_select_then_deselect_witness:
  "\<lparr>detail_label = ''Humanities'', detail_value = ''HUMANITIES and RELIGION''\<rparr>
     \<notin> set (selectedItems (runEvents
         [Select \<lparr>detail_label = ''Technology'', detail_value = ''TECHNOLOGY''\<rparr>] initialPage))
   \<and> onDeselect \<lparr>detail_label = ''Humanities'', detail_value = ''HUMANITIES and RELIGION''\<rparr>
       (onSelect \<lparr>detail_label = ''Humanities'', detail_value = ''HUMANITIES and RELIGION''\<rparr>
         (runEvents
           [Select \<lparr>detail_label = ''Technology'', detail_value = ''TECHNOLOGY''\<rparr>] initialPage))
     = \<lparr>selectedItems = [\<lparr>detail_label = ''Technology'', detail_value = ''TECHNOLOGY''\<rparr>],
        filterValues = [''TECHNOLOGY,equals'']\<rparr>"
proof -
  have run: "runEvents
      [Select \<lparr>detail_label = ''Technology'', detail_value = ''TECHNOLOGY''\<rparr>] initialPage =
      \<lparr>selectedItems = [\<lparr>detail_label = ''Technology'', detail_value = ''TECHNOLOGY''\<rparr>],
       filterValues = [''TECHNOLOGY,equals'']\<rparr>"
    by (simp add: runEvents_def initialPage_def onSelect_def filterString_def)
  have fresh: "\<lparr>detail_label = ''Humanities'', detail_value = ''HUMANITIES and RELIGION''\<rparr>
     \<notin> set (selectedItems (runEvents
         [Select \<lparr>detail_label = ''Technology'', detail_value = ''TECHNOLOGY''\<rparr>] initialPage))"
    by (simp add: run)
  from taxonomy_select_then_deselect [OF fresh] fresh
  show ?thesis by (simp add: run)
qed

text \<open>
  C6 as stated fails for an entry that is already selected: with A and B selected,
  selecting A again and deselecting it removes the earlier A and leaves B before A, not
  A before B.
\<close>

theorem taxonomy_reselect_counterexample:
  "selectedItems
     (runEvents [Select \<lparr>detail_label = ''A'', detail_value = ''A''\<rparr>,
                 Select \<lparr>detail_label = ''B'', detail_value = ''B''\<rparr>] initialPage)
     = [\<lparr>detail_label = ''A'', detail_value = ''A''\<rparr>, \<lparr>detail_label = ''B'', detail_value = ''B''\<rparr>]
   \<and> selectedItems (onDeselect \<lparr>detail_label = ''A'', detail_value = ''A''\<rparr>
       (onSelect \<lparr>detail_label = ''A'', detail_value = ''A''\<rparr>
          (runEvents [Select \<lparr>detail_label = ''A'', detail_value = ''A''\<rparr>,
                      Select \<lparr>detail_label = ''B'', detail_value = ''B''\<rparr>] initialPage)))
     = [\<lparr>detail_label = ''B'', detail_value = ''B''\<rparr>, \<lparr>detail_label = ''A'', detail_value = ''A''\<rparr>]
   \<and> selectedItems (onDeselect \<lparr>detail_label = ''A'', detail_value = ''A''\<rparr>
       (onSelect \<lparr>detail_label = ''A'', detail_value = ''A''\<rparr>
          (runEvents [Select \<lparr>detail_label = ''A'', detail_value = ''A''\<rparr>,
                      Select \<lparr>detail_label = ''B'', detail_value = ''B''\<rparr>] initialPage)))
     \<noteq> selectedItems
          (runEvents [Select \<lparr>detail_label = ''A'', detail_value = ''A''\<rparr>,
                      Select \<lparr>detail_label = ''B'', detail_value = ''B''\<rparr>] initialPage)
   \<and> filterValues (onDeselect \<lparr>detail_label = ''A'', detail_value = ''A''\<rparr>
       (onSelect \<lparr>detail_label = ''A'', detail_value = ''A''\<rparr>
          (runEvents [Select \<lparr>detail_label = ''A'', detail_value = ''A''\<rparr>,
                      Select \<lparr>detail_label = ''B'', detail_value = ''B''\<rparr>] initialPage)))
     \<noteq> filterValues
          (runEvents [Select \<lparr>detail_label = ''A'', detail_value = ''A''\<rparr>,
                      Select \<lparr>detail_label = ''B'', detail_value = ''B''\<rparr>] initialPage)"
  by (simp add: runEvents_def initialPage_def onSelect_def onDeselect_def filterString_def
      removeAt_def)

end
